theory Spec2Isabelle
  imports Main "HOL-Library.Word"
begin

section \<open>JavaScript strings\<close>

text \<open>
  A JavaScript string is a sequence of 16-bit code units; \<open>.length\<close> counts code units.
  The literals of \<^verbatim>\<open>scripts/validate.js\<close> that the model needs are ASCII, written
  \<open>js ''...''\<close>.
\<close>

type_synonym jsstring = "16 word list"

abbreviation cu :: "char \<Rightarrow> 16 word" where
  "cu c \<equiv> of_char c"

definition js :: "string \<Rightarrow> jsstring" where
  "js s = map of_char s"

definition is_digit :: "16 word \<Rightarrow> bool" where
  "is_digit c = (cu CHR ''0'' \<le> c \<and> c \<le> cu CHR ''9'')"

definition digit_val :: "16 word \<Rightarrow> nat" where
  "digit_val c = unat c - 48"

definition digits_val :: "jsstring \<Rightarrow> nat" where
  "digits_val s = foldl (\<lambda>a c. 10 * a + digit_val c) 0 s"

text \<open>
  \<^verbatim>\<open>String.prototype.replace(pattern, replacement)\<close> with a string pattern: the first
  occurrence of the pattern is replaced. (The replacements used by the script contain
  no \<^verbatim>\<open>$\<close>, so no replacement pattern is expanded.)
\<close>

fun String_replace :: "jsstring \<Rightarrow> jsstring \<Rightarrow> jsstring \<Rightarrow> jsstring" where
  "String_replace pat rep [] = (if pat = [] then rep else [])"
| "String_replace pat rep (c # cs) =
     (if take (length pat) (c # cs) = pat then rep @ drop (length pat) (c # cs)
      else c # String_replace pat rep cs)"

section \<open>Regular expressions of the script\<close>

text \<open>
  The only regular expression is
  \<^verbatim>\<open>/^\d{4}-\d{2}-\d{2} \d{2}:\d{2}:\d{2}$/\<close>: anchored at both ends, a fixed sequence
  of atoms, each \<^verbatim>\<open>\d\<close> (an ASCII digit: the expression has no \<^verbatim>\<open>u\<close> flag) or a
  literal character. Without the \<^verbatim>\<open>m\<close> flag \<^verbatim>\<open>$\<close> matches at the end of the input only.
\<close>

datatype atom = Digit | Lit "16 word"

fun atom_matches :: "atom \<Rightarrow> 16 word \<Rightarrow> bool" where
  "atom_matches Digit c = is_digit c"
| "atom_matches (Lit l) c = (c = l)"

definition regex_test :: "atom list \<Rightarrow> jsstring \<Rightarrow> bool" where
  "regex_test r s = list_all2 atom_matches r s"

definition time_regex :: "atom list" where
  "time_regex =
     [Digit, Digit, Digit, Digit, Lit (cu CHR ''-''), Digit, Digit, Lit (cu CHR ''-''),
      Digit, Digit, Lit (cu CHR '' ''), Digit, Digit, Lit (cu CHR '':''),
      Digit, Digit, Lit (cu CHR '':''), Digit, Digit]"

section \<open>The runtime's Date constructor\<close>

text \<open>
  \<^verbatim>\<open>new Date(string)\<close> is a built-in of the JavaScript engine, not code of the
  repository. The script runs on Node.js (it imports \<^verbatim>\<open>node:fs\<close>), whose engine is V8.
  Modelled here is whether the constructed date has a time value other than NaN, for the
  one shape of string the script ever passes: the ECMAScript date-time form
  \<^verbatim>\<open>YYYY-MM-DDTHH:mm:ss\<close>. V8 accepts it when the month is 01 to 12, the day is 01 to 31
  (the day is not compared with the length of the month: February 30 rolls over into
  March), and the time is 00:00:00 to 23:59:59 or exactly 24:00:00; any other value makes
  the date invalid. Strings of any other shape are outside the model and reported invalid;
  \<open>isValidTimeFormat\<close> never passes one (lemma \<open>isValidTimeFormat_calls_Date_on_iso\<close>).
\<close>

definition iso_regex :: "atom list" where
  "iso_regex =
     [Digit, Digit, Digit, Digit, Lit (cu CHR ''-''), Digit, Digit, Lit (cu CHR ''-''),
      Digit, Digit, Lit (cu CHR ''T''), Digit, Digit, Lit (cu CHR '':''),
      Digit, Digit, Lit (cu CHR '':''), Digit, Digit]"

definition field :: "jsstring \<Rightarrow> nat \<Rightarrow> nat \<Rightarrow> nat" where
  "field s i n = digits_val (take n (drop i s))"

definition fields_in_range :: "jsstring \<Rightarrow> bool" where
  "fields_in_range s =
     (1 \<le> field s 5 2 \<and> field s 5 2 \<le> 12 \<and>
      1 \<le> field s 8 2 \<and> field s 8 2 \<le> 31 \<and>
      (field s 11 2 \<le> 23 \<and> field s 14 2 \<le> 59 \<and> field s 17 2 \<le> 59 \<or>
       field s 11 2 = 24 \<and> field s 14 2 = 0 \<and> field s 17 2 = 0))"

definition Date_valid :: "jsstring \<Rightarrow> bool" where
  "Date_valid s = (regex_test iso_regex s \<and> fields_in_range s)"

section \<open>The runtime's URL constructor\<close>

text \<open>
  \<^verbatim>\<open>new URL(string)\<close> is a built-in of the runtime, not code of the repository: Node.js
  implements the WHATWG URL Standard. Modelled here is whether the constructor returns or
  throws \<^verbatim>\<open>TypeError\<close> when called without a base URL, following the states of the
  standard's basic URL parser. Only the states up to the port can fail; once the parser is
  in the path start, path, opaque path, query or fragment state it succeeds, so these
  states are the value \<open>True\<close>.

  The host parser is modelled for bracketed IPv6 literals, for opaque hosts and for
  domains that are ASCII strings with no percent sign and no label starting with
  \<^verbatim>\<open>xn--\<close> (for these the standard's domain-to-ASCII is ASCII lower-casing). The
  outcome for any other host (Unicode or percent-encoded or Punycode labels, which need
  the Unicode IDNA tables) is the parameter \<open>H\<close>.
\<close>

type_synonym unicode_host = "jsstring \<Rightarrow> bool"

definition is_upper :: "16 word \<Rightarrow> bool" where
  "is_upper c = (cu CHR ''A'' \<le> c \<and> c \<le> cu CHR ''Z'')"

definition is_alpha :: "16 word \<Rightarrow> bool" where
  "is_alpha c = (is_upper c \<or> cu CHR ''a'' \<le> c \<and> c \<le> cu CHR ''z'')"

definition is_alnum :: "16 word \<Rightarrow> bool" where
  "is_alnum c = (is_alpha c \<or> is_digit c)"

definition is_hex :: "16 word \<Rightarrow> bool" where
  "is_hex c = (is_digit c \<or> cu CHR ''A'' \<le> c \<and> c \<le> cu CHR ''F'' \<or>
     cu CHR ''a'' \<le> c \<and> c \<le> cu CHR ''f'')"

definition is_octal :: "16 word \<Rightarrow> bool" where
  "is_octal c = (cu CHR ''0'' \<le> c \<and> c \<le> cu CHR ''7'')"

definition to_lower :: "16 word \<Rightarrow> 16 word" where
  "to_lower c = (if is_upper c then c + 0x20 else c)"

definition is_c0_or_space :: "16 word \<Rightarrow> bool" where
  "is_c0_or_space c = (c \<le> 0x20)"

definition is_tab_or_newline :: "16 word \<Rightarrow> bool" where
  "is_tab_or_newline c = (c = 0x09 \<or> c = 0x0A \<or> c = 0x0D)"

definition is_slash :: "16 word \<Rightarrow> bool" where
  "is_slash c = (c = cu CHR ''/'' \<or> c = 0x5C)"

text \<open>The code points that end the authority: \<^verbatim>\<open>/ ? #\<close>, and the backslash in a special URL.\<close>

definition is_authority_end :: "bool \<Rightarrow> 16 word \<Rightarrow> bool" where
  "is_authority_end special c =
     (c = cu CHR ''/'' \<or> c = cu CHR ''?'' \<or> c = cu CHR ''#'' \<or> special \<and> c = 0x5C)"

definition forbidden_host_code_point :: "16 word \<Rightarrow> bool" where
  "forbidden_host_code_point c =
     (c \<in> set [0x00, 0x09, 0x0A, 0x0D, 0x20, 0x23, 0x2F, 0x3A, 0x3C, 0x3E, 0x3F, 0x40,
               0x5B, 0x5C, 0x5D, 0x5E, 0x7C])"

definition forbidden_domain_code_point :: "16 word \<Rightarrow> bool" where
  "forbidden_domain_code_point c =
     (forbidden_host_code_point c \<or> c \<le> 0x1F \<or> c = 0x25 \<or> c = 0x7F)"

definition special_schemes :: "jsstring list" where
  "special_schemes = [js ''ftp'', js ''file'', js ''http'', js ''https'', js ''ws'', js ''wss'']"

text \<open>Strictly splitting a string on a delimiter.\<close>

fun split_on :: "16 word \<Rightarrow> jsstring \<Rightarrow> jsstring list" where
  "split_on d [] = [[]]"
| "split_on d (c # cs) =
     (if c = d then [] # split_on d cs
      else (case split_on d cs of p # ps \<Rightarrow> (c # p) # ps | [] \<Rightarrow> [[c]]))"

subsection \<open>IPv4\<close>

text \<open>The IPv4 number parser: whether it returns a number, and the number.\<close>

definition hex_val :: "16 word \<Rightarrow> nat" where
  "hex_val c = (if is_digit c then unat c - 48 else if c \<le> cu CHR ''F'' then unat c - 55
                else unat c - 87)"

definition number_in_radix :: "nat \<Rightarrow> jsstring \<Rightarrow> nat" where
  "number_in_radix R s = foldl (\<lambda>a c. R * a + hex_val c) 0 s"

fun IPv4_number :: "jsstring \<Rightarrow> nat option" where
  "IPv4_number [] = None"
| "IPv4_number [c] = (if is_digit c then Some (number_in_radix 10 [c]) else None)"
| "IPv4_number (c1 # c2 # cs) =
     (if c1 = cu CHR ''0'' \<and> (c2 = cu CHR ''x'' \<or> c2 = cu CHR ''X'') then
        (if list_all is_hex cs then Some (number_in_radix 16 cs) else None)
      else if c1 = cu CHR ''0'' then
        (if list_all is_octal (c2 # cs) then Some (number_in_radix 8 (c2 # cs)) else None)
      else
        (if list_all is_digit (c1 # c2 # cs) then Some (number_in_radix 10 (c1 # c2 # cs))
         else None))"

definition drop_empty_last :: "jsstring list \<Rightarrow> jsstring list" where
  "drop_empty_last parts =
     (if parts \<noteq> [] \<and> last parts = [] \<and> 1 < length parts then butlast parts else parts)"

definition ends_in_a_number :: "jsstring \<Rightarrow> bool" where
  "ends_in_a_number input =
     (let parts = split_on (cu CHR ''.'') input in
      if last parts = [] \<and> length parts = 1 then False
      else
        (let l = last (drop_empty_last parts) in
         if l \<noteq> [] \<and> list_all is_digit l then True
         else IPv4_number l \<noteq> None))"

definition IPv4_parser :: "jsstring \<Rightarrow> bool" where
  "IPv4_parser input =
     (let parts = drop_empty_last (split_on (cu CHR ''.'') input) in
      if 4 < length parts then False
      else
        (let numbers = map IPv4_number parts in
         if list_ex (\<lambda>n. n = None) numbers then False
         else if list_ex (\<lambda>n. 255 < the n) (butlast numbers) then False
         else the (last numbers) < 256 ^ (5 - length numbers)))"

subsection \<open>IPv6\<close>

text \<open>
  The IPv4-in-IPv6 part: \<open>seen\<close> numbers are complete, \<open>piece\<close> is the number being read
  (\<open>None\<close> at the start of a number). It succeeds when exactly four numbers were read.
\<close>

fun IPv6_ipv4_part :: "nat \<Rightarrow> nat option \<Rightarrow> jsstring \<Rightarrow> bool" where
  "IPv6_ipv4_part seen piece [] = (piece \<noteq> None \<and> seen + 1 = 4)"
| "IPv6_ipv4_part seen piece (c # cs) =
     (if is_digit c then
        (case piece of
           None \<Rightarrow> IPv6_ipv4_part seen (Some (digit_val c)) cs
         | Some v \<Rightarrow>
             if v = 0 then False
             else if 255 < v * 10 + digit_val c then False
             else IPv6_ipv4_part seen (Some (v * 10 + digit_val c)) cs)
      else if c = cu CHR ''.'' then
        (case piece of
           None \<Rightarrow> False
         | Some v \<Rightarrow> if seen + 1 < 4 then IPv6_ipv4_part (seen + 1) None cs else False)
      else False)"

text \<open>
  The main loop: \<open>pieceIndex\<close> and whether \<open>compress\<close> is set, as in the standard;
  \<open>cur\<close> holds the hexadecimal digits of the piece being read.
\<close>

fun IPv6_loop :: "nat \<Rightarrow> bool \<Rightarrow> jsstring \<Rightarrow> jsstring \<Rightarrow> bool" where
  "IPv6_loop pieceIndex compress cur [] =
     (if cur = [] then compress \<or> pieceIndex = 8 else compress \<or> pieceIndex + 1 = 8)"
| "IPv6_loop pieceIndex compress cur (c # cs) =
     (if cur = [] then
        (if pieceIndex = 8 then False
         else if c = cu CHR '':'' then
           (if compress then False else IPv6_loop (pieceIndex + 1) True [] cs)
         else if is_hex c then IPv6_loop pieceIndex compress [c] cs
         else False)
      else if length cur < 4 \<and> is_hex c then IPv6_loop pieceIndex compress (cur @ [c]) cs
      else if c = cu CHR ''.'' then
        (if 6 < pieceIndex then False
         else IPv6_ipv4_part 0 None (cur @ c # cs) \<and> (compress \<or> pieceIndex + 2 = 8))
      else if c = cu CHR '':'' then
        (if cs = [] then False else IPv6_loop (pieceIndex + 1) compress [] cs)
      else False)"

fun IPv6_parser :: "jsstring \<Rightarrow> bool" where
  "IPv6_parser (c1 # c2 # cs) =
     (if c1 = cu CHR '':'' then
        (if c2 = cu CHR '':'' then IPv6_loop 1 True [] cs else False)
      else IPv6_loop 0 False [] (c1 # c2 # cs))"
| "IPv6_parser [c] = (if c = cu CHR '':'' then False else IPv6_loop 0 False [] [c])"
| "IPv6_parser [] = IPv6_loop 0 False [] []"

subsection \<open>Hosts\<close>

definition has_punycode_label :: "jsstring \<Rightarrow> bool" where
  "has_punycode_label input =
     list_ex (\<lambda>l. map to_lower (take 4 l) = js ''xn--'') (split_on (cu CHR ''.'') input)"

definition plain_ascii_domain :: "jsstring \<Rightarrow> bool" where
  "plain_ascii_domain input =
     (list_all (\<lambda>c. c < 0x80 \<and> c \<noteq> cu CHR ''%'') input \<and> \<not> has_punycode_label input)"

definition domain_host :: "unicode_host \<Rightarrow> jsstring \<Rightarrow> bool" where
  "domain_host H input =
     (if plain_ascii_domain input then
        (let asciiDomain = map to_lower input in
         if asciiDomain = [] then False
         else if list_ex forbidden_domain_code_point asciiDomain then False
         else if ends_in_a_number asciiDomain then IPv4_parser asciiDomain
         else True)
      else H input)"

definition host_parser :: "unicode_host \<Rightarrow> bool \<Rightarrow> jsstring \<Rightarrow> bool" where
  "host_parser H isOpaque input =
     (if input \<noteq> [] \<and> hd input = cu CHR ''[''
      then (if last input = cu CHR '']'' then IPv6_parser (butlast (tl input)) else False)
      else if isOpaque then (if list_ex forbidden_host_code_point input then False else True)
      else domain_host H input)"

subsection \<open>The basic URL parser\<close>

definition port_ok :: "jsstring \<Rightarrow> bool" where
  "port_ok buffer = (if buffer = [] then True else digits_val buffer \<le> 65535)"

fun port_state :: "bool \<Rightarrow> jsstring \<Rightarrow> jsstring \<Rightarrow> bool" where
  "port_state special buffer [] = port_ok buffer"
| "port_state special buffer (c # cs) =
     (if is_digit c then port_state special (buffer @ [c]) cs
      else if is_authority_end special c then port_ok buffer
      else False)"

fun host_state :: "unicode_host \<Rightarrow> bool \<Rightarrow> bool \<Rightarrow> jsstring \<Rightarrow> jsstring \<Rightarrow> bool" where
  "host_state H special insideBrackets buffer [] =
     (if special \<and> buffer = [] then False else host_parser H (\<not> special) buffer)"
| "host_state H special insideBrackets buffer (c # cs) =
     (if c = cu CHR '':'' \<and> \<not> insideBrackets then
        (if buffer = [] then False
         else if host_parser H (\<not> special) buffer then port_state special [] cs
         else False)
      else if is_authority_end special c then
        (if special \<and> buffer = [] then False else host_parser H (\<not> special) buffer)
      else host_state H special
             (if c = cu CHR ''['' then True else if c = cu CHR '']'' then False
              else insideBrackets)
             (buffer @ [c]) cs)"

text \<open>
  The authority state collects the buffer up to the end of the authority; an \<^verbatim>\<open>@\<close> moves
  the buffer into the credentials. The host state then reads again from the start of the
  buffer.
\<close>

fun authority_state :: "unicode_host \<Rightarrow> bool \<Rightarrow> bool \<Rightarrow> jsstring \<Rightarrow> jsstring \<Rightarrow> bool" where
  "authority_state H special atSignSeen buffer [] =
     (if atSignSeen \<and> buffer = [] then False else host_state H special False [] buffer)"
| "authority_state H special atSignSeen buffer (c # cs) =
     (if c = cu CHR ''@'' then authority_state H special True [] cs
      else if is_authority_end special c then
        (if atSignSeen \<and> buffer = [] then False
         else host_state H special False [] (buffer @ c # cs))
      else authority_state H special atSignSeen (buffer @ [c]) cs)"

definition special_authority_ignore_slashes_state :: "unicode_host \<Rightarrow> jsstring \<Rightarrow> bool" where
  "special_authority_ignore_slashes_state H input =
     authority_state H True False [] (dropWhile is_slash input)"

fun special_authority_slashes_state :: "unicode_host \<Rightarrow> jsstring \<Rightarrow> bool" where
  "special_authority_slashes_state H (c1 # c2 # cs) =
     (if c1 = cu CHR ''/'' \<and> c2 = cu CHR ''/''
      then special_authority_ignore_slashes_state H cs
      else special_authority_ignore_slashes_state H (c1 # c2 # cs))"
| "special_authority_slashes_state H cs = special_authority_ignore_slashes_state H cs"

fun path_or_authority_state :: "unicode_host \<Rightarrow> jsstring \<Rightarrow> bool" where
  "path_or_authority_state H (c # cs) =
     (if c = cu CHR ''/'' then authority_state H False False [] cs else True)"
| "path_or_authority_state H [] = True"

definition is_windows_drive_letter :: "jsstring \<Rightarrow> bool" where
  "is_windows_drive_letter s =
     (case s of [c1, c2] \<Rightarrow> is_alpha c1 \<and> (c2 = cu CHR '':'' \<or> c2 = cu CHR ''|'') | _ \<Rightarrow> False)"

definition file_host_end :: "unicode_host \<Rightarrow> jsstring \<Rightarrow> bool" where
  "file_host_end H buffer =
     (if is_windows_drive_letter buffer then True
      else if buffer = [] then True
      else host_parser H False buffer)"

fun file_host_state :: "unicode_host \<Rightarrow> jsstring \<Rightarrow> jsstring \<Rightarrow> bool" where
  "file_host_state H buffer [] = file_host_end H buffer"
| "file_host_state H buffer (c # cs) =
     (if is_authority_end True c then file_host_end H buffer
      else file_host_state H (buffer @ [c]) cs)"

fun file_slash_state :: "unicode_host \<Rightarrow> jsstring \<Rightarrow> bool" where
  "file_slash_state H (c # cs) = (if is_slash c then file_host_state H [] cs else True)"
| "file_slash_state H [] = True"

fun file_state :: "unicode_host \<Rightarrow> jsstring \<Rightarrow> bool" where
  "file_state H (c # cs) = (if is_slash c then file_slash_state H cs else True)"
| "file_state H [] = True"

text \<open>
  The scheme state. Without a base URL the no scheme state is a failure, so an input with
  no scheme is the value \<open>False\<close>.
\<close>

definition is_scheme_char :: "16 word \<Rightarrow> bool" where
  "is_scheme_char c =
     (is_alnum c \<or> c = cu CHR ''+'' \<or> c = cu CHR ''-'' \<or> c = cu CHR ''.'')"

fun scheme_state :: "unicode_host \<Rightarrow> jsstring \<Rightarrow> jsstring \<Rightarrow> bool" where
  "scheme_state H buffer [] = False"
| "scheme_state H buffer (c # cs) =
     (if is_scheme_char c then scheme_state H (buffer @ [to_lower c]) cs
      else if c = cu CHR '':'' then
        (if buffer = js ''file'' then file_state H cs
         else if buffer \<in> set special_schemes then special_authority_slashes_state H cs
         else if cs \<noteq> [] \<and> hd cs = cu CHR ''/'' then path_or_authority_state H (tl cs)
         else True)
      else False)"

definition url_preprocess :: "jsstring \<Rightarrow> jsstring" where
  "url_preprocess input =
     filter (\<lambda>c. \<not> is_tab_or_newline c)
       (rev (dropWhile is_c0_or_space (rev (dropWhile is_c0_or_space input))))"

definition basic_URL_parser :: "unicode_host \<Rightarrow> jsstring \<Rightarrow> bool" where
  "basic_URL_parser H input =
     (case url_preprocess input of
        [] \<Rightarrow> False
      | c # cs \<Rightarrow> if is_alpha c then scheme_state H [to_lower c] cs else False)"

datatype exn = TypeError | SyntaxError

definition URL_new :: "unicode_host \<Rightarrow> jsstring \<Rightarrow> exn + unit" where
  "URL_new H url = (if basic_URL_parser H url then Inr () else Inl TypeError)"

section \<open>Format checkers\<close>

text \<open>\<^verbatim>\<open>isValidTimeFormat\<close> (validate.js, lines 12 to 18).\<close>

definition isValidTimeFormat :: "jsstring \<Rightarrow> bool" where
  "isValidTimeFormat time =
     (if \<not> regex_test time_regex time then False
      else Date_valid (String_replace (js '' '') (js ''T'') time))"

text \<open>\<^verbatim>\<open>isValidUrl\<close> (validate.js, lines 24 to 31): the exception is caught.\<close>

definition isValidUrl :: "unicode_host \<Rightarrow> jsstring \<Rightarrow> bool" where
  "isValidUrl H url = (case URL_new H url of Inr u \<Rightarrow> True | Inl e \<Rightarrow> False)"

section \<open>The registry's data\<close>

text \<open>
  The records of \<^verbatim>\<open>plugins.json\<close>, with the fields and the field types of the
  repository's declaration (\<^verbatim>\<open>interface Base\<close>, and \<^verbatim>\<open>files\<close> of \<^verbatim>\<open>interface App\<close>).
  The file is parsed JSON that nothing has checked, so every field may be absent:
  \<open>None\<close> is JavaScript's \<^verbatim>\<open>undefined\<close>.
\<close>

record license_info =
  license_name :: "jsstring option"
  license_url :: "jsstring option"

record author_info =
  author_name :: "jsstring option"
  author_home :: "jsstring option"

record repo_info =
  repo_type :: "jsstring option"
  repo_url :: "jsstring option"
  repo_branch :: "jsstring option"

record plugin =
  name :: "jsstring option"
  type :: "jsstring option"
  description :: "jsstring option"
  time :: "jsstring option"
  home :: "jsstring option"
  license :: "license_info option"
  author :: "author_info list option"
  repo :: "repo_info list option"
  files :: "jsstring list option"

text \<open>
  Every \<^verbatim>\<open>throw new Error(...)\<close> of the script is a constructor, named after the
  specification's error kinds and carrying the values its message interpolates;
  \<open>Thrown\<close> is an exception raised by the runtime itself.
\<close>

datatype error =
    MissingField jsstring jsstring
  | InvalidTimestamp "jsstring option"
  | DescriptionTooLong "jsstring option"
  | InvalidLicense "jsstring option"
  | InvalidAuthorList "jsstring option"
  | InvalidRepoList "jsstring option"
  | InvalidVariant "jsstring option" "jsstring option"
  | InvalidHomepage "jsstring option"
  | MissingAuthorName "jsstring option"
  | InvalidAuthorHomepage "jsstring option"
  | InvalidRepoKind "jsstring option" "jsstring option"
  | InvalidRepoUrl "jsstring option"
  | MissingFiles "jsstring option"
  | InvalidFileUrl "jsstring option" jsstring
  | DuplicateName "jsstring option"
  | UnsupportedRepoKind "jsstring option"
  | UnexpectedBranch "jsstring option"
  | MissingBranch "jsstring option" "jsstring option"
  | RemoteFetchFailed jsstring
  | RemoteManifestIncomplete jsstring
  | RepoCheckFailed "jsstring option" "jsstring option" error
  | Thrown exn

subsection \<open>Operators of the language\<close>

text \<open>\<^verbatim>\<open>!v\<close> for a string or \<^verbatim>\<open>undefined\<close>: the empty string and \<^verbatim>\<open>undefined\<close> are falsy.\<close>

definition falsy :: "jsstring option \<Rightarrow> bool" where
  "falsy v = (case v of None \<Rightarrow> True | Some s \<Rightarrow> s = [])"

text \<open>
  The conversion of an argument to a string, which \<^verbatim>\<open>RegExp.prototype.test\<close>, the URL
  constructor and template literals apply.
\<close>

definition ToString :: "jsstring option \<Rightarrow> jsstring" where
  "ToString v = (case v of None \<Rightarrow> js ''undefined'' | Some s \<Rightarrow> s)"

text \<open>\<^verbatim>\<open>!Array.isArray(v) || v.length === 0\<close>.\<close>

definition not_nonempty_array :: "'a list option \<Rightarrow> bool" where
  "not_nonempty_array v = (case v of None \<Rightarrow> True | Some xs \<Rightarrow> xs = [])"

text \<open>\<^verbatim>\<open>Array.prototype.includes\<close> on an array of strings.\<close>

definition Array_includes :: "jsstring list \<Rightarrow> jsstring option \<Rightarrow> bool" where
  "Array_includes xs v = (case v of None \<Rightarrow> False | Some s \<Rightarrow> s \<in> set xs)"

section \<open>The validators of the basic schema (validate.js, lines 1 to 164)\<close>

subsection \<open>\<^verbatim>\<open>validateBaseFields\<close>\<close>

text \<open>
  The loop over \<^verbatim>\<open>requiredFields\<close>: each field name with the test \<^verbatim>\<open>!plugin[field]\<close>. An
  object or an array is truthy, so \<^verbatim>\<open>license\<close>, \<^verbatim>\<open>author\<close> and \<^verbatim>\<open>repo\<close> are falsy only when
  absent.
\<close>

definition requiredFields :: "(jsstring \<times> (plugin \<Rightarrow> bool)) list" where
  "requiredFields =
     [(js ''name'', \<lambda>p. falsy (name p)),
      (js ''type'', \<lambda>p. falsy (type p)),
      (js ''description'', \<lambda>p. falsy (description p)),
      (js ''license'', \<lambda>p. license p = None),
      (js ''time'', \<lambda>p. falsy (time p)),
      (js ''author'', \<lambda>p. author p = None),
      (js ''repo'', \<lambda>p. repo p = None)]"

text \<open>\<^verbatim>\<open>plugin.name || '...'\<close> with the two-character literal "unknown" of the message.\<close>

definition name_or_unknown :: "plugin \<Rightarrow> jsstring" where
  "name_or_unknown p = (if falsy (name p) then [0x672A, 0x77E5] else ToString (name p))"

fun check_required :: "(jsstring \<times> (plugin \<Rightarrow> bool)) list \<Rightarrow> plugin \<Rightarrow> error + unit" where
  "check_required [] p = Inr ()"
| "check_required ((fld, is_falsy) # rest) p =
     (if is_falsy p then Inl (MissingField (name_or_unknown p) fld)
      else check_required rest p)"

definition license_incomplete :: "unicode_host \<Rightarrow> license_info \<Rightarrow> bool" where
  "license_incomplete H l =
     (falsy (license_name l) \<or> falsy (license_url l) \<or>
      \<not> isValidUrl H (ToString (license_url l)))"

definition plugin_types :: "jsstring list" where
  "plugin_types = [js ''github'', js ''gitee'', js ''gitcode'', js ''gitlab'', js ''npm'']"

text \<open>
  The checks that follow the loop, in the order of the source. The \<open>None\<close> branches are
  the \<^verbatim>\<open>TypeError\<close> of reading a property of \<^verbatim>\<open>undefined\<close>; the loop has excluded them
  when the checks run on its result (\<open>validateBaseFields\<close>).
\<close>

definition base_checks :: "unicode_host \<Rightarrow> plugin \<Rightarrow> error + unit" where
  "base_checks H p =
     (if \<not> isValidTimeFormat (ToString (time p)) then Inl (InvalidTimestamp (name p))
      else
        (case description p of
           None \<Rightarrow> Inl (Thrown TypeError)
         | Some d \<Rightarrow>
             if 50 < length d then Inl (DescriptionTooLong (name p))
             else
               (case license p of
                  None \<Rightarrow> Inl (Thrown TypeError)
                | Some l \<Rightarrow>
                    if license_incomplete H l then Inl (InvalidLicense (name p))
                    else if not_nonempty_array (author p) then Inl (InvalidAuthorList (name p))
                    else if not_nonempty_array (repo p) then Inl (InvalidRepoList (name p))
                    else if \<not> Array_includes plugin_types (type p)
                      then Inl (InvalidVariant (name p) (type p))
                    else Inr ())))"

definition validateBaseFields :: "unicode_host \<Rightarrow> plugin \<Rightarrow> error + unit" where
  "validateBaseFields H p =
     (case check_required requiredFields p of
        Inl e \<Rightarrow> Inl e
      | Inr u \<Rightarrow> base_checks H p)"

subsection \<open>\<^verbatim>\<open>validateAuthor\<close>, \<^verbatim>\<open>validateRepo\<close>, \<^verbatim>\<open>validateAppPlugin\<close>\<close>

fun validateAuthor_loop :: "unicode_host \<Rightarrow> plugin \<Rightarrow> author_info list \<Rightarrow> error + unit" where
  "validateAuthor_loop H p [] = Inr ()"
| "validateAuthor_loop H p (a # as) =
     (if falsy (author_name a) then Inl (MissingAuthorName (name p))
      else if falsy (author_home a) \<or> \<not> isValidUrl H (ToString (author_home a))
        then Inl (InvalidAuthorHomepage (name p))
      else validateAuthor_loop H p as)"

text \<open>Iterating \<^verbatim>\<open>undefined\<close> with \<^verbatim>\<open>for ... of\<close> throws \<^verbatim>\<open>TypeError\<close>.\<close>

definition validateAuthor :: "unicode_host \<Rightarrow> plugin \<Rightarrow> error + unit" where
  "validateAuthor H p =
     (case author p of
        None \<Rightarrow> Inl (Thrown TypeError)
      | Some as \<Rightarrow> validateAuthor_loop H p as)"

definition validTypes :: "jsstring list" where
  "validTypes = [js ''github'', js ''gitee'', js ''gitlab'', js ''gitcode'', js ''npm'']"

fun validateRepo_loop :: "unicode_host \<Rightarrow> plugin \<Rightarrow> repo_info list \<Rightarrow> error + unit" where
  "validateRepo_loop H p [] = Inr ()"
| "validateRepo_loop H p (r # rs) =
     (if \<not> Array_includes validTypes (repo_type r) then Inl (InvalidRepoKind (name p) (repo_type r))
      else if falsy (repo_url r) \<or> \<not> isValidUrl H (ToString (repo_url r))
        then Inl (InvalidRepoUrl (name p))
      else validateRepo_loop H p rs)"

definition validateRepo :: "unicode_host \<Rightarrow> plugin \<Rightarrow> error + unit" where
  "validateRepo H p =
     (case repo p of
        None \<Rightarrow> Inl (Thrown TypeError)
      | Some rs \<Rightarrow> validateRepo_loop H p rs)"

fun validateAppPlugin_loop :: "unicode_host \<Rightarrow> plugin \<Rightarrow> jsstring list \<Rightarrow> error + unit" where
  "validateAppPlugin_loop H p [] = Inr ()"
| "validateAppPlugin_loop H p (fileUrl # fs) =
     (if \<not> isValidUrl H fileUrl then Inl (InvalidFileUrl (name p) fileUrl)
      else validateAppPlugin_loop H p fs)"

definition validateAppPlugin :: "unicode_host \<Rightarrow> plugin \<Rightarrow> error + unit" where
  "validateAppPlugin H p =
     (case files p of
        None \<Rightarrow> Inl (MissingFiles (name p))
      | Some fs \<Rightarrow>
          if fs = [] then Inl (MissingFiles (name p)) else validateAppPlugin_loop H p fs)"

subsection \<open>\<^verbatim>\<open>validateUniquePackages\<close>\<close>

text \<open>
  The \<^verbatim>\<open>Set\<close> of names seen so far; it holds the value of \<^verbatim>\<open>plugin.name\<close>, which is
  \<^verbatim>\<open>undefined\<close> for a record with no name.
\<close>

fun validateUniquePackages_loop :: "jsstring option set \<Rightarrow> plugin list \<Rightarrow> error + unit" where
  "validateUniquePackages_loop names [] = Inr ()"
| "validateUniquePackages_loop names (p # ps) =
     (if name p \<in> names then Inl (DuplicateName (name p))
      else validateUniquePackages_loop (insert (name p) names) ps)"

definition validateUniquePackages :: "plugin list \<Rightarrow> error + unit" where
  "validateUniquePackages plugins = validateUniquePackages_loop {} plugins"

subsection \<open>\<^verbatim>\<open>main\<close>\<close>

text \<open>
  The dispatch on \<^verbatim>\<open>plugin.type\<close> at the end of the loop body (lines 147 to 153).
\<close>

definition variant_dispatch :: "unicode_host \<Rightarrow> plugin \<Rightarrow> error + unit" where
  "variant_dispatch H p =
     (if type p = Some (js ''app'') then validateAppPlugin H p
      else if type p = Some (js ''git'') \<or> type p = Some (js ''npm'') then Inr ()
      else Inl (InvalidVariant (name p) (type p)))"

text \<open>The body of the loop of \<^verbatim>\<open>main\<close> (lines 143 to 153): the validation of one record.\<close>

definition main_body :: "unicode_host \<Rightarrow> plugin \<Rightarrow> error + unit" where
  "main_body H p =
     (case validateBaseFields H p of
        Inl e \<Rightarrow> Inl e
      | Inr u \<Rightarrow>
          (case validateAuthor H p of
             Inl e \<Rightarrow> Inl e
           | Inr u \<Rightarrow>
               (case validateRepo H p of
                  Inl e \<Rightarrow> Inl e
                | Inr u \<Rightarrow> variant_dispatch H p)))"

fun main_loop :: "unicode_host \<Rightarrow> plugin list \<Rightarrow> error + unit" where
  "main_loop H [] = Inr ()"
| "main_loop H (p # ps) =
     (case main_body H p of
        Inl e \<Rightarrow> Inl e
      | Inr u \<Rightarrow> main_loop H ps)"

text \<open>
  \<^verbatim>\<open>main\<close>, from the parsed \<^verbatim>\<open>plugins\<close> array on. \<open>Inr ()\<close> is the success message and
  \<^verbatim>\<open>process.exit(0)\<close>; \<open>Inl e\<close> is the \<^verbatim>\<open>catch\<close> branch, which prints the message of the
  one error and exits with status 1.
\<close>

definition main :: "unicode_host \<Rightarrow> plugin list \<Rightarrow> error + unit" where
  "main H plugins =
     (case validateUniquePackages plugins of
        Inl e \<Rightarrow> Inl e
      | Inr u \<Rightarrow> main_loop H plugins)"

section \<open>The validators of the extended schema (validate.js, lines 164 to 400)\<close>

text \<open>
  The second script repeats \<^verbatim>\<open>isValidTimeFormat\<close>, \<^verbatim>\<open>isValidUrl\<close>, \<^verbatim>\<open>validateAuthor\<close>,
  \<^verbatim>\<open>validateRepo\<close>, \<^verbatim>\<open>validateAppPlugin\<close> and \<^verbatim>\<open>validateUniquePackages\<close> word for word.
  Its \<^verbatim>\<open>validateBaseFields\<close> also requires \<^verbatim>\<open>home\<close> and ends with the URL check of it; its
  \<^verbatim>\<open>main\<close> fetches the \<^verbatim>\<open>package.json\<close> of every repository.
\<close>

subsection \<open>\<^verbatim>\<open>validateBaseFields\<close>\<close>

definition requiredFields_ext :: "(jsstring \<times> (plugin \<Rightarrow> bool)) list" where
  "requiredFields_ext = requiredFields @ [(js ''home'', \<lambda>p. falsy (home p))]"

definition base_checks_ext :: "unicode_host \<Rightarrow> plugin \<Rightarrow> error + unit" where
  "base_checks_ext H p =
     (case base_checks H p of
        Inl e \<Rightarrow> Inl e
      | Inr u \<Rightarrow>
          if \<not> isValidUrl H (ToString (home p)) then Inl (InvalidHomepage (name p))
          else Inr ())"

definition validateBaseFields_ext :: "unicode_host \<Rightarrow> plugin \<Rightarrow> error + unit" where
  "validateBaseFields_ext H p =
     (case check_required requiredFields_ext p of
        Inl e \<Rightarrow> Inl e
      | Inr u \<Rightarrow> base_checks_ext H p)"

subsection \<open>\<^verbatim>\<open>getRawFileUrl\<close>\<close>

text \<open>
  The template literals convert \<^verbatim>\<open>url\<close> and \<^verbatim>\<open>branch\<close> to strings; \<^verbatim>\<open>url.replace\<close> on an
  absent \<^verbatim>\<open>url\<close> throws \<^verbatim>\<open>TypeError\<close>.
\<close>

definition filePath :: jsstring where
  "filePath = js ''package.json''"

definition raw_suffix :: "repo_info \<Rightarrow> jsstring" where
  "raw_suffix r =
     ToString (repo_url r) @ js ''/raw/'' @ ToString (repo_branch r) @ js ''/'' @ filePath"

definition getRawFileUrl :: "repo_info \<Rightarrow> error + jsstring" where
  "getRawFileUrl r =
     (if repo_type r = Some (js ''github'') then
        (case repo_url r of
           None \<Rightarrow> Inl (Thrown TypeError)
         | Some url \<Rightarrow>
             Inr (String_replace (js ''github.com'') (js ''raw.githubusercontent.com'') url @
                  js ''/'' @ ToString (repo_branch r) @ js ''/'' @ filePath))
      else if repo_type r = Some (js ''gitee'') then Inr (raw_suffix r)
      else if repo_type r = Some (js ''gitlab'') then Inr (raw_suffix r)
      else if repo_type r = Some (js ''gitcode'') then Inr (raw_suffix r)
      else if repo_type r = Some (js ''npm'')
        then Inr (js ''https://registry.npmjs.org/'' @ ToString (repo_url r) @ js ''/latest'')
      else Inl (UnsupportedRepoKind (repo_type r)))"

subsection \<open>\<^verbatim>\<open>validatePackageJson\<close>\<close>

text \<open>
  The network is outside the program. \<^verbatim>\<open>fetch\<close> is a parameter: given the requests made so
  far and a URL it answers with a rejection or with a response (\<^verbatim>\<open>ok\<close>, \<^verbatim>\<open>statusText\<close> and
  what \<^verbatim>\<open>response.json()\<close> gives: a syntax error, \<^verbatim>\<open>null\<close>, or a value whose \<^verbatim>\<open>name\<close> and
  \<^verbatim>\<open>version\<close> may be absent). The calls are awaited one after the other, so the program
  is a function of the log of the requests made, which it returns extended.
\<close>

record package_json =
  pkg_name :: "jsstring option"
  pkg_version :: "jsstring option"

datatype json_result = JsonSyntaxError | JsonNull | JsonObject package_json

datatype fetch_result = Rejected | Response bool jsstring json_result

type_synonym fetch_log = "jsstring list"

type_synonym network = "fetch_log \<Rightarrow> jsstring \<Rightarrow> fetch_result"

text \<open>The checks on the fetched \<^verbatim>\<open>package.json\<close> (lines 302 to 314).\<close>

definition response_checks :: "fetch_result \<Rightarrow> error + unit" where
  "response_checks res =
     (case res of
        Rejected \<Rightarrow> Inl (Thrown TypeError)
      | Response ok statusText body \<Rightarrow>
          if \<not> ok then Inl (RemoteFetchFailed statusText)
          else
            (case body of
               JsonSyntaxError \<Rightarrow> Inl (Thrown SyntaxError)
             | JsonNull \<Rightarrow> Inl (Thrown TypeError)
             | JsonObject packageJson \<Rightarrow>
                 if falsy (pkg_name packageJson) then Inl (RemoteManifestIncomplete (js ''name''))
                 else if falsy (pkg_version packageJson)
                   then Inl (RemoteManifestIncomplete (js ''version''))
                 else Inr ()))"

text \<open>The \<^verbatim>\<open>try\<close> block (lines 288 to 314).\<close>

definition package_try :: "network \<Rightarrow> plugin \<Rightarrow> repo_info \<Rightarrow> fetch_log \<Rightarrow> (error + unit) \<times> fetch_log" where
  "package_try fetch p r log =
     (if repo_type r = Some (js ''npm'') then
        (if repo_branch r \<noteq> Some [] then (Inl (UnexpectedBranch (name p)), log)
         else (Inr (), log))
      else if falsy (repo_branch r) then (Inl (MissingBranch (name p) (repo_type r)), log)
      else
        (case getRawFileUrl r of
           Inl e \<Rightarrow> (Inl e, log)
         | Inr rawUrl \<Rightarrow> (response_checks (fetch log rawUrl), log @ [rawUrl])))"

text \<open>The \<^verbatim>\<open>catch\<close> clause wraps every error with the plugin's name and the repository's URL.\<close>

definition validatePackageJson :: "network \<Rightarrow> plugin \<Rightarrow> repo_info \<Rightarrow> fetch_log \<Rightarrow> (error + unit) \<times> fetch_log" where
  "validatePackageJson fetch p r log =
     (case package_try fetch p r log of
        (Inl e, log') \<Rightarrow> (Inl (RepoCheckFailed (name p) (repo_url r) e), log')
      | (Inr u, log') \<Rightarrow> (Inr (), log'))"

subsection \<open>\<^verbatim>\<open>main\<close>\<close>

text \<open>The loop over \<^verbatim>\<open>plugin.repo\<close> (lines 380 to 382).\<close>

fun package_loop :: "network \<Rightarrow> plugin \<Rightarrow> repo_info list \<Rightarrow> fetch_log \<Rightarrow> (error + unit) \<times> fetch_log" where
  "package_loop fetch p [] log = (Inr (), log)"
| "package_loop fetch p (r # rs) log =
     (case validatePackageJson fetch p r log of
        (Inl e, log') \<Rightarrow> (Inl e, log')
      | (Inr u, log') \<Rightarrow> package_loop fetch p rs log')"

definition package_checks :: "network \<Rightarrow> plugin \<Rightarrow> fetch_log \<Rightarrow> (error + unit) \<times> fetch_log" where
  "package_checks fetch p log =
     (case repo p of
        None \<Rightarrow> (Inl (Thrown TypeError), log)
      | Some rs \<Rightarrow> package_loop fetch p rs log)"

text \<open>The body of the loop of \<^verbatim>\<open>main\<close> (lines 375 to 390).\<close>

definition main_body_ext :: "unicode_host \<Rightarrow> network \<Rightarrow> plugin \<Rightarrow> fetch_log \<Rightarrow> (error + unit) \<times> fetch_log" where
  "main_body_ext H fetch p log =
     (case validateBaseFields_ext H p of
        Inl e \<Rightarrow> (Inl e, log)
      | Inr u \<Rightarrow>
          (case validateAuthor H p of
             Inl e \<Rightarrow> (Inl e, log)
           | Inr u \<Rightarrow>
               (case validateRepo H p of
                  Inl e \<Rightarrow> (Inl e, log)
                | Inr u \<Rightarrow>
                    (case package_checks fetch p log of
                       (Inl e, log') \<Rightarrow> (Inl e, log')
                     | (Inr u, log') \<Rightarrow> (variant_dispatch H p, log')))))"

fun main_loop_ext :: "unicode_host \<Rightarrow> network \<Rightarrow> plugin list \<Rightarrow> fetch_log \<Rightarrow> (error + unit) \<times> fetch_log" where
  "main_loop_ext H fetch [] log = (Inr (), log)"
| "main_loop_ext H fetch (p # ps) log =
     (case main_body_ext H fetch p log of
        (Inl e, log') \<Rightarrow> (Inl e, log')
      | (Inr u, log') \<Rightarrow> main_loop_ext H fetch ps log')"

definition main_ext :: "unicode_host \<Rightarrow> network \<Rightarrow> plugin list \<Rightarrow> (error + unit) \<times> fetch_log" where
  "main_ext H fetch plugins =
     (case validateUniquePackages plugins of
        Inl e \<Rightarrow> (Inl e, [])
      | Inr u \<Rightarrow> main_loop_ext H fetch plugins [])"

section \<open>What the specification says, for comparison\<close>

text \<open>
  The specification's "real calendar date": the day exists in the month of that year
  (Gregorian leap years).
\<close>

definition leap_year :: "nat \<Rightarrow> bool" where
  "leap_year y = (y mod 4 = 0 \<and> (y mod 100 \<noteq> 0 \<or> y mod 400 = 0))"

definition days_in_month :: "nat \<Rightarrow> nat \<Rightarrow> nat" where
  "days_in_month y m =
     (if m = 2 then (if leap_year y then 29 else 28)
      else if m \<in> set [4, 6, 9, 11] then 30
      else 31)"

definition spec_real_calendar_date :: "jsstring \<Rightarrow> bool" where
  "spec_real_calendar_date s =
     (1 \<le> field s 5 2 \<and> field s 5 2 \<le> 12 \<and>
      1 \<le> field s 8 2 \<and> field s 8 2 \<le> days_in_month (field s 0 4) (field s 5 2))"

text \<open>
  The specification's "scheme + authority at minimum": a scheme, a colon and the two
  slashes that introduce an authority.
\<close>

definition has_scheme :: "jsstring \<Rightarrow> bool" where
  "has_scheme s =
     (case s of
        [] \<Rightarrow> False
      | c # cs \<Rightarrow> is_alpha c \<and> take 1 (dropWhile is_scheme_char cs) = js '':'')"

definition spec_scheme_and_authority :: "jsstring \<Rightarrow> bool" where
  "spec_scheme_and_authority s =
     (has_scheme s \<and> take 3 (dropWhile is_scheme_char s) = js ''://'')"

section \<open>Example records\<close>

text \<open>
  The closed evaluations below fix the parameter of the host parser to the instance that
  rejects every host outside the modelled fragment; no URL they evaluate has such a host.
\<close>

definition no_unicode_hosts :: unicode_host where
  "no_unicode_hosts = (\<lambda>h. False)"

text \<open>The three example records of the repository's README (basic schema).\<close>

definition npm_example :: plugin where
  "npm_example =
     \<lparr> name = Some (js ''karin-plugin-basic''),
       type = Some (js ''npm''),
       description = Some (js ''karin plugin basic''),
       time = Some (js ''2025-01-19 10:00:00''),
       home = None,
       license = Some \<lparr> license_name = Some (js ''MIT''),
         license_url = Some (js ''https://github.com/karinjs/karin-plugin-basic/blob/main/LICENSE'') \<rparr>,
       author = Some [\<lparr> author_name = Some (js ''shijin''),
         author_home = Some (js ''https://github.com/sj817'') \<rparr>],
       repo = Some [\<lparr> repo_type = Some (js ''github''),
         repo_url = Some (js ''https://github.com/karinjs/karin-plugin-basic''),
         repo_branch = None \<rparr>],
       files = None \<rparr>"

definition git_example :: plugin where
  "git_example =
     \<lparr> name = Some (js ''karin-plugin-git-example''),
       type = Some (js ''git''),
       description =
         Some ([0x8FD9, 0x662F, 0x4E00, 0x4E2A] @ js '' Git '' @ [0x63D2, 0x4EF6, 0x793A, 0x4F8B]),
       time = Some (js ''2024-03-19 10:00:00''),
       home = None,
       license = Some \<lparr> license_name = Some (js ''MIT''),
         license_url =
           Some (js ''https://github.com/username/karin-plugin-git-example/blob/main/LICENSE'') \<rparr>,
       author = Some [\<lparr> author_name = Some [0x4F5C, 0x8005, 0x540D, 0x5B57],
         author_home = Some (js ''https://github.com/username'') \<rparr>],
       repo = Some [\<lparr> repo_type = Some (js ''github''),
           repo_url = Some (js ''https://github.com/username/karin-plugin-git-example''),
           repo_branch = None \<rparr>,
         \<lparr> repo_type = Some (js ''gitee''),
           repo_url = Some (js ''https://gitee.com/username/karin-plugin-git-example''),
           repo_branch = None \<rparr>],
       files = None \<rparr>"

definition app_example :: plugin where
  "app_example =
     \<lparr> name = Some (js ''karin-plugin-app-example''),
       type = Some (js ''app''),
       description =
         Some ([0x8FD9, 0x662F, 0x4E00, 0x4E2A] @ js '' App '' @ [0x63D2, 0x4EF6, 0x793A, 0x4F8B]),
       time = Some (js ''2024-03-19 10:00:00''),
       home = None,
       license = Some \<lparr> license_name = Some (js ''GPL-3.0''),
         license_url =
           Some (js ''https://github.com/username/karin-plugin-app-example/blob/main/LICENSE'') \<rparr>,
       author = Some [\<lparr> author_name = Some [0x4F5C, 0x8005, 0x540D, 0x5B57],
         author_home = Some (js ''https://github.com/username'') \<rparr>],
       repo = Some [\<lparr> repo_type = Some (js ''github''),
         repo_url = Some (js ''https://github.com/username/karin-plugin-app-example''),
         repo_branch = None \<rparr>],
       files = Some [js ''https://example.com/download/plugin-v1.0.0.js'',
         js ''https://mirror.example.com/download/plugin-v1.0.0.js''] \<rparr>"

text \<open>
  The extended schema adds \<^verbatim>\<open>home\<close> to the record and \<^verbatim>\<open>branch\<close> to its repositories.
\<close>

definition with_home_and_branch :: "plugin \<Rightarrow> plugin" where
  "with_home_and_branch p =
     p \<lparr> home := Some (js ''https://github.com/karinjs''),
         repo := map_option (map (\<lambda>r. r \<lparr> repo_branch := Some (js ''main'') \<rparr>)) (repo p) \<rparr>"

text \<open>A network that answers every request with a complete \<^verbatim>\<open>package.json\<close>.\<close>

definition complete_package_json :: network where
  "complete_package_json =
     (\<lambda>log url. Response True (js ''OK'')
        (JsonObject \<lparr> pkg_name = Some (js ''pkg''), pkg_version = Some (js ''1.0.0'') \<rparr>))"

section \<open>Evaluating the definitions\<close>

lemmas char_defs = js_def is_digit_def is_upper_def is_alpha_def is_alnum_def is_hex_def is_octal_def
  to_lower_def is_c0_or_space_def is_tab_or_newline_def is_slash_def is_authority_end_def
  forbidden_host_code_point_def forbidden_domain_code_point_def is_scheme_char_def
  digit_val_def digits_val_def hex_val_def

lemmas time_defs = isValidTimeFormat_def regex_test_def time_regex_def iso_regex_def Date_valid_def
  fields_in_range_def field_def

lemmas url_defs = isValidUrl_def URL_new_def basic_URL_parser_def url_preprocess_def special_schemes_def
  special_authority_ignore_slashes_state_def host_parser_def domain_host_def plain_ascii_domain_def
  has_punycode_label_def ends_in_a_number_def drop_empty_last_def IPv4_parser_def port_ok_def
  is_windows_drive_letter_def file_host_end_def number_in_radix_def no_unicode_hosts_def

lemmas js_defs = falsy_def ToString_def not_nonempty_array_def Array_includes_def

lemmas validator_defs = validateBaseFields_def base_checks_def requiredFields_def name_or_unknown_def
  license_incomplete_def plugin_types_def validateAuthor_def validTypes_def validateRepo_def
  validateAppPlugin_def validateUniquePackages_def variant_dispatch_def main_body_def main_def

lemmas ext_defs = requiredFields_ext_def base_checks_ext_def validateBaseFields_ext_def filePath_def
  raw_suffix_def getRawFileUrl_def response_checks_def package_try_def validatePackageJson_def
  package_checks_def main_body_ext_def main_ext_def

lemmas example_defs = npm_example_def git_example_def app_example_def with_home_and_branch_def
  complete_package_json_def

section \<open>Properties of the URL check\<close>

lemma scheme_state_colon:
  "scheme_state H buffer cs \<Longrightarrow> take 1 (dropWhile is_scheme_char cs) = js '':''"
  by (induction cs arbitrary: buffer) (auto simp: js_def split: if_splits)

lemma basic_URL_parser_has_scheme:
  "basic_URL_parser H s \<Longrightarrow> has_scheme (url_preprocess s)"
  by (auto simp: basic_URL_parser_def has_scheme_def split: list.splits if_splits
      dest: scheme_state_colon)

lemma isValidUrl_parser: "isValidUrl H s = basic_URL_parser H s"
  by (simp add: isValidUrl_def URL_new_def)

lemma scheme_state_append:
  "list_all is_scheme_char sc \<Longrightarrow>
   scheme_state H buffer (sc @ cu CHR '':'' # cs) =
   scheme_state H (buffer @ map to_lower sc) (cu CHR '':'' # cs)"
  by (induction sc arbitrary: buffer) auto

text \<open>
  Every input that is a scheme other than the special ones, a colon and a remainder that
  does not start with a slash is accepted: the remainder is an opaque path, and there is no
  authority.
\<close>

lemma nonspecial_scheme_without_slash_accepted:
  assumes "url_preprocess s = c # sc @ cu CHR '':'' # cs"
    and "is_alpha c" and "list_all is_scheme_char sc"
    and "map to_lower (c # sc) \<notin> set special_schemes"
    and "cs = [] \<or> hd cs \<noteq> cu CHR ''/''"
  shows "isValidUrl H s"
proof -
  have "\<not> is_scheme_char (cu CHR '':'')"
    by (simp add: char_defs)
  moreover from assms(4) have "map to_lower (c # sc) \<noteq> js ''file''"
    by (auto simp: special_schemes_def)
  ultimately have "scheme_state H ([to_lower c] @ map to_lower sc) (cu CHR '':'' # cs)"
    using assms(4,5) by auto
  with assms(3) have "scheme_state H [to_lower c] (sc @ cu CHR '':'' # cs)"
    by (simp only: scheme_state_append)
  with assms(1,2) show ?thesis
    by (simp add: isValidUrl_parser basic_URL_parser_def)
qed

text \<open>
  Counterexample to C7 as stated: \<^verbatim>\<open>mailto:x\<close> has a scheme and no authority, and the
  URL check accepts it.
\<close>
theorem isValidUrl_accepts_without_authority:
  "isValidUrl no_unicode_hosts (js ''mailto:x'') \<and> \<not> spec_scheme_and_authority (js ''mailto:x'')"
  by (simp add: url_defs char_defs spec_scheme_and_authority_def has_scheme_def)

text \<open>
  Claim C7, amended. The URL check is a total boolean function: it is true exactly when
  the runtime's URL constructor returns for the input and false when the constructor
  throws. An accepted input has a scheme (after the parser has trimmed the input); an
  authority is not required. \<^verbatim>\<open>not a url\<close> is rejected; \<^verbatim>\<open>https://github.com/org/repo\<close>
  and \<^verbatim>\<open>mailto:x\<close> are accepted, whatever the outcome for hosts outside the model.
\<close>
theorem isValidUrl_characterised:
  "(isValidUrl H s = (URL_new H s = Inr ())) \<and>
   (isValidUrl H s \<longrightarrow> has_scheme (url_preprocess s)) \<and>
   \<not> isValidUrl H (js ''not a url'') \<and>
   isValidUrl H (js ''https://github.com/org/repo'') \<and>
   isValidUrl H (js ''mailto:x'')"
proof (intro conjI)
  show "isValidUrl H s = (URL_new H s = Inr ())"
    by (simp add: isValidUrl_def URL_new_def)
  show "isValidUrl H s \<longrightarrow> has_scheme (url_preprocess s)"
    by (simp add: isValidUrl_parser basic_URL_parser_has_scheme)
  show "\<not> isValidUrl H (js ''not a url'')"
    by (simp add: url_defs char_defs)
  show "isValidUrl H (js ''https://github.com/org/repo'')"
    by (simp add: url_defs char_defs)
  show "isValidUrl H (js ''mailto:x'')"
    by (simp add: url_defs char_defs)
qed

theorem isValidUrl_characterised_witness:
  "isValidUrl no_unicode_hosts (js ''https://github.com/org/repo'') \<and>
   has_scheme (url_preprocess (js ''https://github.com/org/repo''))"
  using isValidUrl_characterised [of no_unicode_hosts "js ''https://github.com/org/repo''"]
  by blast


section \<open>Properties of the timestamp check\<close>

lemma digit_not_space: "is_digit c \<Longrightarrow> c \<noteq> 0x20"
  by (auto simp: is_digit_def)

lemma replace_space_by_T:
  "regex_test time_regex s \<Longrightarrow> String_replace (js '' '') (js ''T'') s = s[10 := 0x54]"
  by (auto simp: regex_test_def time_regex_def list_all2_Cons1 js_def digit_not_space)

lemma isValidTimeFormat_calls_Date_on_iso:
  "regex_test time_regex s \<Longrightarrow> regex_test iso_regex (String_replace (js '' '') (js ''T'') s)"
  by (auto simp: regex_test_def time_regex_def iso_regex_def list_all2_Cons1 js_def digit_not_space)

lemma fields_after_replace:
  "regex_test time_regex s \<Longrightarrow>
   fields_in_range (String_replace (js '' '') (js ''T'') s) = fields_in_range s"
  by (auto simp: regex_test_def time_regex_def list_all2_Cons1 js_def digit_not_space
      fields_in_range_def field_def)

lemma isValidTimeFormat_eq:
  "isValidTimeFormat s = (regex_test time_regex s \<and> fields_in_range s)"
proof (cases "regex_test time_regex s")
  case True
  then show ?thesis
    by (simp add: isValidTimeFormat_def Date_valid_def isValidTimeFormat_calls_Date_on_iso
        fields_after_replace)
next
  case False
  then show ?thesis by (simp add: isValidTimeFormat_def)
qed

text \<open>
  Counterexample to C4 as stated: \<^verbatim>\<open>2025-02-30 10:00:00\<close> is accepted, and February 30 is
  not a calendar date.
\<close>
theorem isValidTimeFormat_accepts_february_30:
  "isValidTimeFormat (js ''2025-02-30 10:00:00'') \<and>
   \<not> spec_real_calendar_date (js ''2025-02-30 10:00:00'')"
  by (simp add: time_defs char_defs spec_real_calendar_date_def days_in_month_def leap_year_def)

text \<open>
  Claim C4, amended. The timestamp check is a total boolean function on strings. It accepts
  an input exactly when the input matches \<^verbatim>\<open>NNNN-NN-NN NN:NN:NN\<close>, the month is 01 to 12, the
  day is 01 to 31 (whatever the month) and the time is 00:00:00 to 23:59:59 or 24:00:00.
  \<^verbatim>\<open>2025-01-19 10:00:00\<close> is accepted; \<^verbatim>\<open>2025-13-01 00:00:00\<close> matches the pattern and is
  rejected; \<^verbatim>\<open>2025/01/19 10:00:00\<close> is rejected by the pattern.
\<close>
theorem isValidTimeFormat_characterised:
  "(isValidTimeFormat s =
     (regex_test time_regex s \<and>
      1 \<le> field s 5 2 \<and> field s 5 2 \<le> 12 \<and> 1 \<le> field s 8 2 \<and> field s 8 2 \<le> 31 \<and>
      (field s 11 2 \<le> 23 \<and> field s 14 2 \<le> 59 \<and> field s 17 2 \<le> 59 \<or>
       field s 11 2 = 24 \<and> field s 14 2 = 0 \<and> field s 17 2 = 0))) \<and>
   isValidTimeFormat (js ''2025-01-19 10:00:00'') \<and>
   regex_test time_regex (js ''2025-13-01 00:00:00'') \<and>
   \<not> isValidTimeFormat (js ''2025-13-01 00:00:00'') \<and>
   \<not> regex_test time_regex (js ''2025/01/19 10:00:00'') \<and>
   \<not> isValidTimeFormat (js ''2025/01/19 10:00:00'')"
proof (intro conjI)
  show "isValidTimeFormat s =
     (regex_test time_regex s \<and>
      1 \<le> field s 5 2 \<and> field s 5 2 \<le> 12 \<and> 1 \<le> field s 8 2 \<and> field s 8 2 \<le> 31 \<and>
      (field s 11 2 \<le> 23 \<and> field s 14 2 \<le> 59 \<and> field s 17 2 \<le> 59 \<or>
       field s 11 2 = 24 \<and> field s 14 2 = 0 \<and> field s 17 2 = 0))"
    unfolding isValidTimeFormat_eq fields_in_range_def by (rule refl)
  show "isValidTimeFormat (js ''2025-01-19 10:00:00'')"
    by (simp add: time_defs char_defs)
  show "regex_test time_regex (js ''2025-13-01 00:00:00'')"
    by (simp add: time_defs char_defs)
  show "\<not> isValidTimeFormat (js ''2025-13-01 00:00:00'')"
    by (simp add: time_defs char_defs)
  show "\<not> regex_test time_regex (js ''2025/01/19 10:00:00'')"
    by (simp add: time_defs char_defs)
  show "\<not> isValidTimeFormat (js ''2025/01/19 10:00:00'')"
    by (simp add: time_defs char_defs)
qed

section \<open>Properties of the uniqueness check\<close>

lemma unique_loop_duplicate:
  "\<not> distinct (map name ps) \<or> (\<exists>p \<in> set ps. name p \<in> names) \<Longrightarrow>
   \<exists>n. validateUniquePackages_loop names ps = Inl (DuplicateName n)"
proof (induction ps arbitrary: names)
  case Nil
  then show ?case by simp
next
  case (Cons p ps)
  show ?case
  proof (cases "name p \<in> names")
    case True
    then show ?thesis by simp
  next
    case False
    from Cons.prems False
    have "\<not> distinct (map name ps) \<or> (\<exists>q \<in> set ps. name q \<in> insert (name p) names)"
      by auto
    then have "\<exists>n. validateUniquePackages_loop (insert (name p) names) ps = Inl (DuplicateName n)"
      by (rule Cons.IH)
    with False show ?thesis by simp
  qed
qed

lemma unique_loop_distinct:
  "distinct (map name ps) \<Longrightarrow> \<forall>p \<in> set ps. name p \<notin> names \<Longrightarrow>
   validateUniquePackages_loop names ps = Inr ()"
proof (induction ps arbitrary: names)
  case Nil
  then show ?case by simp
next
  case (Cons p ps)
  from Cons.prems have "\<forall>q \<in> set ps. name q \<notin> insert (name p) names"
    by (auto simp: image_iff)
  moreover from Cons.prems have "distinct (map name ps)" by simp
  ultimately have "validateUniquePackages_loop (insert (name p) names) ps = Inr ()"
    by (rule Cons.IH [rotated])
  with Cons.prems show ?case by simp
qed

lemma validateUniquePackages_duplicate:
  "\<not> distinct (map name ps) \<Longrightarrow> \<exists>n. validateUniquePackages ps = Inl (DuplicateName n)"
  unfolding validateUniquePackages_def by (rule unique_loop_duplicate) simp

lemma main_duplicate:
  assumes "\<not> distinct (map name ps)"
  shows "\<exists>n. main H ps = Inl (DuplicateName n) \<and> main_ext H fetch ps = (Inl (DuplicateName n), [])"
proof -
  from assms obtain n where "validateUniquePackages ps = Inl (DuplicateName n)"
    using validateUniquePackages_duplicate by blast
  then have "main H ps = Inl (DuplicateName n) \<and> main_ext H fetch ps = (Inl (DuplicateName n), [])"
    by (simp add: main_def main_ext_def)
  then show ?thesis ..
qed


section \<open>Properties of the record validators\<close>

lemma check_required_basic:
  "check_required requiredFields p = Inr () \<longleftrightarrow>
   \<not> falsy (name p) \<and> \<not> falsy (type p) \<and> \<not> falsy (description p) \<and> license p \<noteq> None \<and>
   \<not> falsy (time p) \<and> author p \<noteq> None \<and> repo p \<noteq> None"
  by (simp add: requiredFields_def)

lemma check_required_ext:
  "check_required requiredFields_ext p = Inr () \<longleftrightarrow>
   check_required requiredFields p = Inr () \<and> \<not> falsy (home p)"
  by (simp add: requiredFields_ext_def requiredFields_def)

lemma check_required_error:
  "check_required fs p = Inl e \<Longrightarrow> \<exists>f. e = MissingField (name_or_unknown p) f"
  by (induction fs p rule: check_required.induct) (auto split: if_splits)

lemma check_required_ext_error:
  "check_required requiredFields p = Inl e \<Longrightarrow> check_required requiredFields_ext p = Inl e"
  by (auto simp: requiredFields_ext_def requiredFields_def split: if_splits)

lemma validateBaseFields_accepts_only_repo_kinds:
  "validateBaseFields H p = Inr () \<Longrightarrow> Array_includes plugin_types (type p)"
  by (auto simp: validateBaseFields_def base_checks_def split: sum.splits option.splits if_splits)

lemma validateBaseFields_ext_accepts_only_repo_kinds:
  "validateBaseFields_ext H p = Inr () \<Longrightarrow> Array_includes plugin_types (type p)"
  by (auto simp: validateBaseFields_ext_def base_checks_ext_def base_checks_def
      split: sum.splits option.splits if_splits)

lemma app_is_no_repo_kind: "\<not> Array_includes plugin_types (Some (js ''app''))"
  by (simp add: Array_includes_def plugin_types_def js_def)

lemma git_is_no_repo_kind: "\<not> Array_includes plugin_types (Some (js ''git''))"
  by (simp add: Array_includes_def plugin_types_def js_def)

lemma main_body_never_reaches_validateAppPlugin:
  "type p = Some (js ''app'') \<Longrightarrow> \<exists>e. validateBaseFields H p = Inl e \<and> main_body H p = Inl e"
  using validateBaseFields_accepts_only_repo_kinds [of H p] app_is_no_repo_kind
  by (cases "validateBaseFields H p") (auto simp: main_body_def)

lemma validateBaseFields_no_MissingFiles: "validateBaseFields H p \<noteq> Inl (MissingFiles n)"
  by (auto simp: validateBaseFields_def base_checks_def split: sum.splits option.splits if_splits
      dest: check_required_error)

lemma validateAuthor_loop_no_MissingFiles: "validateAuthor_loop H p as \<noteq> Inl (MissingFiles n)"
  by (induction as) auto

lemma validateRepo_loop_no_MissingFiles: "validateRepo_loop H p rs \<noteq> Inl (MissingFiles n)"
  by (induction rs) auto

lemma main_body_no_MissingFiles: "main_body H p \<noteq> Inl (MissingFiles n)"
proof (cases "type p = Some (js ''app'')")
  case True
  then obtain e where "validateBaseFields H p = Inl e" "main_body H p = Inl e"
    using main_body_never_reaches_validateAppPlugin by blast
  then show ?thesis using validateBaseFields_no_MissingFiles [of H p n] by simp
next
  case False
  then show ?thesis
    using validateBaseFields_no_MissingFiles [of H p n]
      validateAuthor_loop_no_MissingFiles [of H p _ n]
      validateRepo_loop_no_MissingFiles [of H p _ n]
    by (auto simp: main_body_def variant_dispatch_def validateAuthor_def validateRepo_def
        split: sum.splits option.splits)
qed

text \<open>
  What the two tests of \<^verbatim>\<open>plugin.type\<close> leave: \<^verbatim>\<open>validateBaseFields\<close> accepts the five
  repository kinds and the dispatch accepts \<^verbatim>\<open>app\<close>, \<^verbatim>\<open>git\<close> and \<^verbatim>\<open>npm\<close>, so the loop body
  accepts a record only when its type is \<^verbatim>\<open>npm\<close>.
\<close>

lemma main_body_accepts_only_npm:
  assumes "main_body H p = Inr ()"
  shows "type p = Some (js ''npm'')"
proof -
  from assms have b: "validateBaseFields H p = Inr ()" and v: "variant_dispatch H p = Inr ()"
    by (auto simp: main_body_def split: sum.splits)
  from b have "Array_includes plugin_types (type p)"
    by (rule validateBaseFields_accepts_only_repo_kinds)
  moreover from v have "type p = Some (js ''app'') \<or> type p = Some (js ''git'') \<or>
      type p = Some (js ''npm'')"
    by (auto simp: variant_dispatch_def split: if_splits)
  ultimately show ?thesis
    using app_is_no_repo_kind git_is_no_repo_kind by auto
qed

text \<open>The three example records of the README, as one collection, are rejected.\<close>

lemma readme_examples_rejected:
  "main no_unicode_hosts [npm_example, git_example, app_example] =
     Inl (InvalidVariant (Some (js ''karin-plugin-git-example'')) (Some (js ''git'')))"
  by (simp add: example_defs validator_defs js_defs time_defs url_defs char_defs)

lemma validateAppPlugin_loop_ok:
  "list_all (isValidUrl H) fs \<Longrightarrow> validateAppPlugin_loop H p fs = Inr ()"
  by (induction fs) auto

lemma validateAppPlugin_missing_files:
  "not_nonempty_array (files p) \<Longrightarrow> validateAppPlugin H p = Inl (MissingFiles (name p))"
  by (auto simp: validateAppPlugin_def not_nonempty_array_def split: option.splits)

lemma validateAppPlugin_valid_files:
  "files p = Some fs \<Longrightarrow> fs \<noteq> [] \<Longrightarrow> list_all (isValidUrl H) fs \<Longrightarrow>
   validateAppPlugin H p = Inr ()"
  by (simp add: validateAppPlugin_def validateAppPlugin_loop_ok)

text \<open>
  Claim C1, at the README's example records. Base-field validation rejects the \<^verbatim>\<open>git\<close> and
  the \<^verbatim>\<open>app\<close> example with \<open>InvalidVariant\<close>, in both schemas: the list it tests
  \<^verbatim>\<open>plugin.type\<close> against (lines 67 and 230) holds the five repository kinds, not the three
  variants \<^verbatim>\<open>npm\<close>, \<^verbatim>\<open>git\<close>, \<^verbatim>\<open>app\<close> of the type declaration and of the dispatch in \<^verbatim>\<open>main\<close>.
  For the same reason it accepts a record whose type is \<^verbatim>\<open>github\<close>, which is none of the
  three variants.
\<close>
theorem validateBaseFields_rejects_git_and_app:
  "validateBaseFields no_unicode_hosts git_example =
     Inl (InvalidVariant (Some (js ''karin-plugin-git-example'')) (Some (js ''git''))) \<and>
   validateBaseFields no_unicode_hosts app_example =
     Inl (InvalidVariant (Some (js ''karin-plugin-app-example'')) (Some (js ''app''))) \<and>
   validateBaseFields_ext no_unicode_hosts (with_home_and_branch git_example) =
     Inl (InvalidVariant (Some (js ''karin-plugin-git-example'')) (Some (js ''git''))) \<and>
   validateBaseFields_ext no_unicode_hosts (with_home_and_branch app_example) =
     Inl (InvalidVariant (Some (js ''karin-plugin-app-example'')) (Some (js ''app''))) \<and>
   validateBaseFields no_unicode_hosts (npm_example \<lparr> type := Some (js ''github'') \<rparr>) = Inr ()"
proof (intro conjI)
  show "validateBaseFields no_unicode_hosts (npm_example \<lparr> type := Some (js ''github'') \<rparr>) =
     Inr ()"
    by (simp add: example_defs validator_defs js_defs time_defs url_defs char_defs)
  show "validateBaseFields no_unicode_hosts git_example =
     Inl (InvalidVariant (Some (js ''karin-plugin-git-example'')) (Some (js ''git'')))"
    by (simp add: example_defs validator_defs js_defs time_defs url_defs char_defs)
  show "validateBaseFields no_unicode_hosts app_example =
     Inl (InvalidVariant (Some (js ''karin-plugin-app-example'')) (Some (js ''app'')))"
    by (simp add: example_defs validator_defs js_defs time_defs url_defs char_defs)
  show "validateBaseFields_ext no_unicode_hosts (with_home_and_branch git_example) =
     Inl (InvalidVariant (Some (js ''karin-plugin-git-example'')) (Some (js ''git'')))"
    by (simp add: example_defs validator_defs ext_defs js_defs time_defs url_defs char_defs)
  show "validateBaseFields_ext no_unicode_hosts (with_home_and_branch app_example) =
     Inl (InvalidVariant (Some (js ''karin-plugin-app-example'')) (Some (js ''app'')))"
    by (simp add: example_defs validator_defs ext_defs js_defs time_defs url_defs char_defs)
qed

text \<open>
  Claim C2, at the README's \<^verbatim>\<open>app\<close> example. With \<^verbatim>\<open>files\<close> empty or absent the validation of
  the record fails with \<open>InvalidVariant\<close>, raised by \<^verbatim>\<open>validateBaseFields\<close>, and not with
  \<open>MissingFiles\<close>; the example as it stands, with two valid file URLs, fails the same
  way. \<^verbatim>\<open>validateAppPlugin\<close> on its own reports \<open>MissingFiles\<close> for the empty list and
  accepts the example, but \<^verbatim>\<open>main\<close> never reaches it for an \<^verbatim>\<open>app\<close> record
  (\<open>main_body_never_reaches_validateAppPlugin\<close>).
\<close>
theorem main_body_app_without_files:
  "main_body no_unicode_hosts (app_example \<lparr> files := Some [] \<rparr>) =
     Inl (InvalidVariant (Some (js ''karin-plugin-app-example'')) (Some (js ''app''))) \<and>
   main_body no_unicode_hosts (app_example \<lparr> files := None \<rparr>) =
     Inl (InvalidVariant (Some (js ''karin-plugin-app-example'')) (Some (js ''app''))) \<and>
   main_body no_unicode_hosts app_example =
     Inl (InvalidVariant (Some (js ''karin-plugin-app-example'')) (Some (js ''app''))) \<and>
   validateAppPlugin no_unicode_hosts (app_example \<lparr> files := Some [] \<rparr>) =
     Inl (MissingFiles (Some (js ''karin-plugin-app-example''))) \<and>
   validateAppPlugin no_unicode_hosts app_example = Inr ()"
proof (intro conjI)
  show "main_body no_unicode_hosts (app_example \<lparr> files := Some [] \<rparr>) =
     Inl (InvalidVariant (Some (js ''karin-plugin-app-example'')) (Some (js ''app'')))"
    by (simp add: example_defs validator_defs js_defs time_defs url_defs char_defs)
  show "main_body no_unicode_hosts (app_example \<lparr> files := None \<rparr>) =
     Inl (InvalidVariant (Some (js ''karin-plugin-app-example'')) (Some (js ''app'')))"
    by (simp add: example_defs validator_defs js_defs time_defs url_defs char_defs)
  show "main_body no_unicode_hosts app_example =
     Inl (InvalidVariant (Some (js ''karin-plugin-app-example'')) (Some (js ''app'')))"
    by (simp add: example_defs validator_defs js_defs time_defs url_defs char_defs)
  show "validateAppPlugin no_unicode_hosts (app_example \<lparr> files := Some [] \<rparr>) =
     Inl (MissingFiles (Some (js ''karin-plugin-app-example'')))"
    by (simp add: example_defs validator_defs)
  show "validateAppPlugin no_unicode_hosts app_example = Inr ()"
    by (simp add: example_defs validator_defs js_defs url_defs char_defs)
qed


text \<open>
  Claim C3. A collection in which two records have the same name fails with
  \<open>DuplicateName\<close>: \<^verbatim>\<open>main\<close> returns what \<^verbatim>\<open>validateUniquePackages\<close> returns, whatever the
  records hold otherwise and whatever the URL parser and the network would answer, and the
  extended \<^verbatim>\<open>main\<close> has made no request. The witness is a collection whose first and third
  records share a name and whose second record has an invalid timestamp: \<^verbatim>\<open>main\<close> reports
  the duplicate, where the per-record loop alone would report the timestamp.
\<close>
theorem duplicate_name_reported_first:
  assumes "\<not> distinct (map name plugins)"
  shows "\<exists>n. validateUniquePackages plugins = Inl (DuplicateName n) \<and>
             main H plugins = Inl (DuplicateName n) \<and>
             main_ext H fetch plugins = (Inl (DuplicateName n), [])"
proof -
  from assms obtain n where "validateUniquePackages plugins = Inl (DuplicateName n)"
    using validateUniquePackages_duplicate by blast
  then have "validateUniquePackages plugins = Inl (DuplicateName n) \<and>
      main H plugins = Inl (DuplicateName n) \<and>
      main_ext H fetch plugins = (Inl (DuplicateName n), [])"
    by (simp add: main_def main_ext_def)
  then show ?thesis ..
qed

theorem duplicate_name_reported_first_witness:
  "\<not> distinct (map name
       [npm_example,
        npm_example \<lparr> name := Some (js ''other''), time := Some (js ''2025-13-01 00:00:00'') \<rparr>,
        npm_example]) \<and>
   main no_unicode_hosts
       [npm_example,
        npm_example \<lparr> name := Some (js ''other''), time := Some (js ''2025-13-01 00:00:00'') \<rparr>,
        npm_example] = Inl (DuplicateName (Some (js ''karin-plugin-basic''))) \<and>
   main_loop no_unicode_hosts
       [npm_example,
        npm_example \<lparr> name := Some (js ''other''), time := Some (js ''2025-13-01 00:00:00'') \<rparr>,
        npm_example] = Inl (InvalidTimestamp (Some (js ''other'')))"
proof (intro conjI)
  let ?ps = "[npm_example,
        npm_example \<lparr> name := Some (js ''other''), time := Some (js ''2025-13-01 00:00:00'') \<rparr>,
        npm_example]"
  show d: "\<not> distinct (map name ?ps)"
    by simp
  have "validateUniquePackages ?ps = Inl (DuplicateName (Some (js ''karin-plugin-basic'')))"
    by (simp add: validateUniquePackages_def npm_example_def js_def)
  with duplicate_name_reported_first [OF d, of no_unicode_hosts complete_package_json]
  show "main no_unicode_hosts ?ps = Inl (DuplicateName (Some (js ''karin-plugin-basic'')))"
    by auto
  show "main_loop no_unicode_hosts ?ps = Inl (InvalidTimestamp (Some (js ''other'')))"
    by (simp add: example_defs validator_defs js_defs time_defs url_defs char_defs)
qed

text \<open>
  Claim C5. In the extended schema, for a repository entry of kind \<^verbatim>\<open>npm\<close> whose branch is
  not exactly the empty string \<^verbatim>\<open>validatePackageJson\<close> fails with \<open>UnexpectedBranch\<close>, and
  for an entry of another kind whose branch is absent or empty it fails with
  \<open>MissingBranch\<close>; both errors are wrapped with the plugin's name and the repository's
  URL, and the log of requests is returned unchanged: no network call was made.
\<close>
theorem validatePackageJson_branch_rule:
  "(repo_type r = Some (js ''npm'') \<and> repo_branch r \<noteq> Some [] \<longrightarrow>
      validatePackageJson fetch p r log =
        (Inl (RepoCheckFailed (name p) (repo_url r) (UnexpectedBranch (name p))), log)) \<and>
   (repo_type r \<noteq> Some (js ''npm'') \<and> falsy (repo_branch r) \<longrightarrow>
      validatePackageJson fetch p r log =
        (Inl (RepoCheckFailed (name p) (repo_url r) (MissingBranch (name p) (repo_type r))), log))"
  by (simp add: validatePackageJson_def package_try_def)

theorem validatePackageJson_branch_rule_witness:
  "validatePackageJson complete_package_json npm_example
      \<lparr> repo_type = Some (js ''npm''), repo_url = Some (js ''karin-plugin-basic''),
        repo_branch = Some (js ''main'') \<rparr> [] =
     (Inl (RepoCheckFailed (Some (js ''karin-plugin-basic'')) (Some (js ''karin-plugin-basic''))
        (UnexpectedBranch (Some (js ''karin-plugin-basic'')))), []) \<and>
   validatePackageJson complete_package_json npm_example
      \<lparr> repo_type = Some (js ''github''), repo_url = Some (js ''karin-plugin-basic''),
        repo_branch = Some [] \<rparr> [] =
     (Inl (RepoCheckFailed (Some (js ''karin-plugin-basic'')) (Some (js ''karin-plugin-basic''))
        (MissingBranch (Some (js ''karin-plugin-basic'')) (Some (js ''github'')))), [])"
  using
    validatePackageJson_branch_rule [of
      "\<lparr> repo_type = Some (js ''npm''), repo_url = Some (js ''karin-plugin-basic''),
         repo_branch = Some (js ''main'') \<rparr>" complete_package_json npm_example "[]"]
    validatePackageJson_branch_rule [of
      "\<lparr> repo_type = Some (js ''github''), repo_url = Some (js ''karin-plugin-basic''),
         repo_branch = Some [] \<rparr>" complete_package_json npm_example "[]"]
  by (simp add: npm_example_def falsy_def js_def)

text \<open>
  Claim C6. For a record that has passed the required-field loop and the timestamp check,
  a description of at most 50 code units (in particular of exactly 50) never fails with
  \<open>DescriptionTooLong\<close>, and one of 51 or more fails with \<open>DescriptionTooLong\<close>; in both
  schemas.
\<close>
theorem description_length_rule:
  assumes "isValidTimeFormat (ToString (time p))" and "description p = Some d"
  shows "(check_required requiredFields p = Inr () \<longrightarrow>
            (length d \<le> 50 \<longrightarrow> (\<forall>n. validateBaseFields H p \<noteq> Inl (DescriptionTooLong n))) \<and>
            (51 \<le> length d \<longrightarrow> validateBaseFields H p = Inl (DescriptionTooLong (name p)))) \<and>
         (check_required requiredFields_ext p = Inr () \<longrightarrow>
            (length d \<le> 50 \<longrightarrow> (\<forall>n. validateBaseFields_ext H p \<noteq> Inl (DescriptionTooLong n))) \<and>
            (51 \<le> length d \<longrightarrow> validateBaseFields_ext H p = Inl (DescriptionTooLong (name p))))"
  using assms
  by (auto simp: validateBaseFields_def validateBaseFields_ext_def base_checks_def base_checks_ext_def
      split: option.splits sum.splits)


theorem description_length_rule_witness:
  "(\<forall>n. validateBaseFields no_unicode_hosts
          (npm_example \<lparr> description := Some (replicate 50 (cu CHR ''a'')) \<rparr>) \<noteq>
        Inl (DescriptionTooLong n)) \<and>
   validateBaseFields no_unicode_hosts
       (npm_example \<lparr> description := Some (replicate 51 (cu CHR ''a'')) \<rparr>) =
     Inl (DescriptionTooLong (Some (js ''karin-plugin-basic'')))"
proof -
  let ?p = "\<lambda>k. npm_example \<lparr> description := Some (replicate k (cu CHR ''a'')) \<rparr>"
  have t: "isValidTimeFormat (ToString (time (?p k)))" for k
    by (simp add: npm_example_def js_defs time_defs char_defs)
  have d: "description (?p k) = Some (replicate k (cu CHR ''a''))" for k
    by simp
  have r: "check_required requiredFields (?p 50) = Inr ()"
      "check_required requiredFields (?p 51) = Inr ()"
    by (simp_all add: npm_example_def requiredFields_def js_defs js_def)
  have n: "name (?p 51) = Some (js ''karin-plugin-basic'')"
    by (simp add: npm_example_def)
  from description_length_rule [OF t d, of 50 no_unicode_hosts]
    description_length_rule [OF t d, of 51 no_unicode_hosts] r n
  show ?thesis by simp
qed

lemma package_loop_error:
  "package_loop fetch p rs log = (Inl e, log') \<Longrightarrow> \<exists>u e'. e = RepoCheckFailed (name p) u e'"
  by (induction rs arbitrary: log)
    (auto simp: validatePackageJson_def split: prod.splits sum.splits)

text \<open>
  Counterexample to C8 as stated: for a record of type \<^verbatim>\<open>github\<close> the extended \<^verbatim>\<open>main\<close>
  requests the repository's \<^verbatim>\<open>package.json\<close> and only then fails the record with
  \<open>InvalidVariant\<close>, a local rule.
\<close>
theorem main_ext_fetches_before_variant_check:
  "main_ext no_unicode_hosts complete_package_json
     [with_home_and_branch (npm_example \<lparr> type := Some (js ''github'') \<rparr>)] =
   (Inl (InvalidVariant (Some (js ''karin-plugin-basic'')) (Some (js ''github''))),
    [js ''https://raw.githubusercontent.com/karinjs/karin-plugin-basic/main/package.json''])"
  by (simp add: example_defs validator_defs ext_defs js_defs time_defs url_defs char_defs)

text \<open>
  Claim C8, amended. In the extended schema a request is made for a record only after
  \<^verbatim>\<open>validateBaseFields\<close>, \<^verbatim>\<open>validateAuthor\<close> and \<^verbatim>\<open>validateRepo\<close> have accepted the record; the
  dispatch on the variant (with the files check of \<^verbatim>\<open>app\<close> records) runs after the remote
  checks of the record: the outcome is then a wrapped error of the remote checks or the
  outcome of the dispatch.
\<close>
theorem remote_checks_follow_base_author_repo:
  assumes "main_body_ext H fetch p log = (res, log')" and "log' \<noteq> log"
  shows "validateBaseFields_ext H p = Inr () \<and> validateAuthor H p = Inr () \<and>
         validateRepo H p = Inr () \<and>
         (res = variant_dispatch H p \<or> (\<exists>u e. res = Inl (RepoCheckFailed (name p) u e)))"
  using assms
  by (auto simp: main_body_ext_def package_checks_def
      split: sum.splits prod.splits option.splits dest: package_loop_error)

theorem remote_checks_follow_base_author_repo_witness:
  "main_body_ext no_unicode_hosts complete_package_json
     (with_home_and_branch (npm_example \<lparr> type := Some (js ''github'') \<rparr>)) [] =
     (Inl (InvalidVariant (Some (js ''karin-plugin-basic'')) (Some (js ''github''))),
      [js ''https://raw.githubusercontent.com/karinjs/karin-plugin-basic/main/package.json'']) \<and>
   validateBaseFields_ext no_unicode_hosts
     (with_home_and_branch (npm_example \<lparr> type := Some (js ''github'') \<rparr>)) = Inr () \<and>
   validateAuthor no_unicode_hosts
     (with_home_and_branch (npm_example \<lparr> type := Some (js ''github'') \<rparr>)) = Inr () \<and>
   validateRepo no_unicode_hosts
     (with_home_and_branch (npm_example \<lparr> type := Some (js ''github'') \<rparr>)) = Inr ()"
proof -
  let ?p = "with_home_and_branch (npm_example \<lparr> type := Some (js ''github'') \<rparr>)"
  let ?url = "js ''https://raw.githubusercontent.com/karinjs/karin-plugin-basic/main/package.json''"
  have run: "main_body_ext no_unicode_hosts complete_package_json ?p [] =
     (Inl (InvalidVariant (Some (js ''karin-plugin-basic'')) (Some (js ''github''))), [?url])"
    by (simp add: example_defs validator_defs ext_defs js_defs time_defs url_defs char_defs)
  have "[?url] \<noteq> []" by simp
  from remote_checks_follow_base_author_repo [OF run this] run
  show ?thesis by simp
qed

text \<open>
  Claim C9. A record whose \<^verbatim>\<open>name\<close>, \<^verbatim>\<open>type\<close>, \<^verbatim>\<open>description\<close> or \<^verbatim>\<open>time\<close> is the empty string
  fails base-field validation with \<open>MissingField\<close>, in both schemas; when \<^verbatim>\<open>name\<close> and
  \<^verbatim>\<open>type\<close> are non-empty and the description is the empty string, the field reported is
  \<^verbatim>\<open>description\<close>: the length bound is never reached.
\<close>
theorem empty_string_is_missing_field:
  assumes "name p = Some [] \<or> type p = Some [] \<or> description p = Some [] \<or> time p = Some []"
  shows "(\<exists>f. validateBaseFields H p = Inl (MissingField (name_or_unknown p) f) \<and>
              validateBaseFields_ext H p = Inl (MissingField (name_or_unknown p) f)) \<and>
         (\<not> falsy (name p) \<and> \<not> falsy (type p) \<and> description p = Some [] \<longrightarrow>
            validateBaseFields H p =
              Inl (MissingField (ToString (name p)) (js ''description'')) \<and>
            validateBaseFields_ext H p =
              Inl (MissingField (ToString (name p)) (js ''description'')))"
proof
  from assms have "check_required requiredFields p \<noteq> Inr ()"
    by (auto simp: check_required_basic falsy_def)
  then obtain e where e: "check_required requiredFields p = Inl e"
    by (cases "check_required requiredFields p") auto
  then obtain f where f: "e = MissingField (name_or_unknown p) f"
    using check_required_error by blast
  from e have "check_required requiredFields_ext p = Inl e"
    by (rule check_required_ext_error)
  with e f show "\<exists>f. validateBaseFields H p = Inl (MissingField (name_or_unknown p) f) \<and>
      validateBaseFields_ext H p = Inl (MissingField (name_or_unknown p) f)"
    by (auto simp: validateBaseFields_def validateBaseFields_ext_def)
  show "\<not> falsy (name p) \<and> \<not> falsy (type p) \<and> description p = Some [] \<longrightarrow>
      validateBaseFields H p = Inl (MissingField (ToString (name p)) (js ''description'')) \<and>
      validateBaseFields_ext H p = Inl (MissingField (ToString (name p)) (js ''description''))"
    by (simp add: validateBaseFields_def validateBaseFields_ext_def requiredFields_def
        requiredFields_ext_def name_or_unknown_def falsy_def)
qed

theorem empty_string_is_missing_field_witness:
  "validateBaseFields no_unicode_hosts (npm_example \<lparr> description := Some [] \<rparr>) =
     Inl (MissingField (js ''karin-plugin-basic'') (js ''description'')) \<and>
   validateBaseFields_ext no_unicode_hosts (npm_example \<lparr> description := Some [] \<rparr>) =
     Inl (MissingField (js ''karin-plugin-basic'') (js ''description''))"
proof -
  let ?p = "npm_example \<lparr> description := Some [] \<rparr>"
  have "name ?p = Some [] \<or> type ?p = Some [] \<or> description ?p = Some [] \<or> time ?p = Some []"
    by simp
  from empty_string_is_missing_field [OF this, of no_unicode_hosts]
  show ?thesis
    by (simp add: npm_example_def js_defs js_def)
qed

text \<open>
  Claim C10. A collection with two records that have no \<^verbatim>\<open>name\<close> fails with
  \<open>DuplicateName\<close>, in both schemas and with no request made: the uniqueness check
  compares the absent names as the one value \<^verbatim>\<open>undefined\<close>, before the required-field loop
  of any record runs. In the witness the duplicate reported is \<^verbatim>\<open>undefined\<close>, where the
  per-record loop alone would report the missing field \<^verbatim>\<open>name\<close>.
\<close>
theorem absent_names_collide:
  assumes "i < j" and "j < length plugins"
    and "name (plugins ! i) = None" and "name (plugins ! j) = None"
  shows "\<exists>n. main H plugins = Inl (DuplicateName n) \<and>
             main_ext H fetch plugins = (Inl (DuplicateName n), [])"
proof -
  have "\<not> distinct (map name plugins)"
  proof
    assume "distinct (map name plugins)"
    moreover from assms have "i < length (map name plugins)" "j < length (map name plugins)"
      by simp_all
    moreover from assms have "map name plugins ! i = map name plugins ! j"
      by simp
    ultimately have "i = j"
      by (metis nth_eq_iff_index_eq)
    with assms show False by simp
  qed
  then show ?thesis by (rule main_duplicate)
qed

theorem absent_names_collide_witness:
  "main no_unicode_hosts [npm_example \<lparr> name := None \<rparr>, git_example \<lparr> name := None \<rparr>] =
     Inl (DuplicateName None) \<and>
   main_loop no_unicode_hosts [npm_example \<lparr> name := None \<rparr>, git_example \<lparr> name := None \<rparr>] =
     Inl (MissingField [0x672A, 0x77E5] (js ''name''))"
proof (intro conjI)
  let ?ps = "[npm_example \<lparr> name := None \<rparr>, git_example \<lparr> name := None \<rparr>]"
  have "(0::nat) < 1" "1 < length ?ps" "name (?ps ! 0) = None" "name (?ps ! 1) = None"
    by simp_all
  from absent_names_collide [OF this, of no_unicode_hosts complete_package_json]
  obtain n where "main no_unicode_hosts ?ps = Inl (DuplicateName n)"
    by blast
  moreover have "validateUniquePackages ?ps = Inl (DuplicateName None)"
    by (simp add: validateUniquePackages_def)
  ultimately show "main no_unicode_hosts ?ps = Inl (DuplicateName None)"
    by (simp add: main_def)
  show "main_loop no_unicode_hosts ?ps = Inl (MissingField [0x672A, 0x77E5] (js ''name''))"
    by (simp add: main_body_def validateBaseFields_def requiredFields_def name_or_unknown_def
        falsy_def)
qed

end
